theory Spec2Isabelle
  imports Main "HOL-Library.Word"
begin

section \<open>The display page of the link application\<close>

text \<open>
  The development embeds \<^verbatim>\<open>src/pages/DisplayPage.jsx\<close>: the effect
  \<^verbatim>\<open>fetchPageAndLinks\<close>, the helpers \<^verbatim>\<open>handleAvatarClick\<close> and
  \<^verbatim>\<open>getFaviconUrl\<close>, the render function of \<^verbatim>\<open>DisplayPage\<close> and the
  \<^verbatim>\<open>onError\<close> handler of a link image. The data service, the router, the browser's
  \<^verbatim>\<open>URL\<close> constructor and the console are collaborators: their answers are parameters
  of the model and their invocations are recorded as events.
\<close>

subsection \<open>Rows and answers of the data service\<close>

text \<open>
  A query of the data service resolves to an object with a \<^verbatim>\<open>data\<close> and an
  \<^verbatim>\<open>error\<close> field, exactly one of which is set; the source destructures both.
\<close>

record pg_error =
  pg_code :: string
  pg_message :: string

datatype 'a response = Failure pg_error | Success 'a

text \<open>
  The view indexes the title of a page, so the title is kept as the language keeps a
  string: a list of UTF-16 code units. The other strings are only compared, joined or
  passed on.
\<close>

type_synonym utf16 = "16 word list"

record page_row =
  page_id :: nat
  page_slug :: string
  page_title :: utf16
  page_description :: string
  page_user_id :: string

record image_row =
  avatar_image_url :: "string option"

record link_row =
  link_id :: nat
  link_page_id :: nat
  link_url :: string
  link_title :: string
  link_description :: "string option"
  link_image_url :: "string option"
  link_created_at :: int

record auth_user =
  auth_id :: string

text \<open>
  The four reads of the source, each with the argument the source passes:
  \<^verbatim>\<open>from('pages').select('*').eq('slug', slug).single()\<close>,
  \<^verbatim>\<open>from('images').select('image_url').eq('user_id', ...).single()\<close>,
  \<^verbatim>\<open>from('links').select('*').eq('page_id', ...).order('created_at', {ascending: true})\<close>
  and \<^verbatim>\<open>auth.getUser()\<close>. The link query carries its order clause: the column and
  the direction.
\<close>

datatype order_clause = OrderBy string bool

record backend =
  pages_single :: "string \<Rightarrow> page_row response"
  images_single :: "string \<Rightarrow> image_row response"
  links_select :: "nat \<Rightarrow> order_clause \<Rightarrow> link_row list response"
  auth_getUser :: "auth_user option"

text \<open>
  Modelled from the spec: how the data service orders the rows of an answer, which is not
  in the source. The spec names one ordering, by creation time; a clause on the column
  \<^verbatim>\<open>created_at\<close> sorts by the creation time, ascending or descending as the clause
  says, and a clause on any other column leaves the rows as the table has them.
\<close>

fun order_rows :: "order_clause \<Rightarrow> link_row list \<Rightarrow> link_row list" where
  "order_rows (OrderBy column ascending) rows =
     (if column = ''created_at''
      then (if ascending then sort_key link_created_at rows
            else rev (sort_key link_created_at rows))
      else rows)"

text \<open>
  Modelled from the spec: the data service's evaluation of the link query over its table of
  link rows, which is not in the source. In the spec's words the query looks up "all link
  rows referencing the page's identifier, ordered by creation time ascending"; the answer
  is the rows whose page is the one asked for, ordered as the clause of the request says.
\<close>

definition links_service :: "link_row list \<Rightarrow> nat \<Rightarrow> order_clause \<Rightarrow> link_row list response" where
  "links_service tbl pid clause =
     Success (order_rows clause (filter (\<lambda>l. link_page_id l = pid) tbl))"

subsection \<open>Effects as events\<close>

datatype request =
    PageBySlug string
  | AvatarByUser string
  | LinksByPage nat order_clause
  | GetUser

datatype thrown = PostgrestError pg_error | TypeError string

datatype log_arg = LogValue thrown | LogString string

datatype event =
    Send request
  | Recv request
  | SetPage page_row
  | SetLinks "link_row list"
  | SetLoading bool
  | SetError string
  | SetUser "auth_user option"
  | SetAvatarUrl "string option"
  | Navigate string
  | ConsoleError string log_arg

text \<open>
  A computation yields the events it performed, in program order, and how it completed:
  with a value, by a \<^verbatim>\<open>return\<close> out of the enclosing function, or by a
  \<^verbatim>\<open>throw\<close>.
\<close>

datatype abrupt = Return_early | Throw thrown

type_synonym 'a io = "event list \<times> (abrupt + 'a)"

definition io_return :: "'a \<Rightarrow> 'a io" where
  "io_return x = ([], Inr x)"

definition io_bind :: "'a io \<Rightarrow> ('a \<Rightarrow> 'b io) \<Rightarrow> 'b io" where
  "io_bind m f =
     (case m of
        (ev, Inl a) \<Rightarrow> (ev, Inl a)
      | (ev, Inr x) \<Rightarrow> (case f x of (ev', r) \<Rightarrow> (ev @ ev', r)))"

definition emit :: "event \<Rightarrow> unit io" where
  "emit e = ([e], Inr ())"

definition throw :: "thrown \<Rightarrow> 'a io" where
  "throw x = ([], Inl (Throw x))"

definition return_early :: "'a io" where
  "return_early = ([], Inl Return_early)"

text \<open>
  \<^verbatim>\<open>await\<close> of a call: the request is sent, the function is suspended, and it
  resumes with the answer once the answer has arrived.
\<close>

definition await_call :: "request \<Rightarrow> 'a \<Rightarrow> 'a io" where
  "await_call rq answer = ([Send rq, Recv rq], Inr answer)"

definition try_catch :: "'a io \<Rightarrow> (thrown \<Rightarrow> 'a io) \<Rightarrow> 'a io" where
  "try_catch body handler =
     (case body of
        (ev, Inl (Throw x)) \<Rightarrow> (case handler x of (ev', r) \<Rightarrow> (ev @ ev', r))
      | (ev, r) \<Rightarrow> (ev, r))"

definition try_catch_finally :: "'a io \<Rightarrow> (thrown \<Rightarrow> 'a io) \<Rightarrow> unit io \<Rightarrow> 'a io" where
  "try_catch_finally body handler finalizer =
     (case try_catch body handler of
        (ev, r) \<Rightarrow>
          (case finalizer of
             (ev', Inl a) \<Rightarrow> (ev @ ev', Inl a)
           | (ev', Inr u) \<Rightarrow> (ev @ ev', r)))"

subsection \<open>The component state\<close>

record component_state =
  page :: "page_row option"
  links :: "link_row list"
  loading :: bool
  error :: "string option"
  user :: "auth_user option"
  avatarUrl :: "string option"

text \<open>The initial values of the six \<^verbatim>\<open>useState\<close> hooks.\<close>

definition mount_state :: component_state where
  "mount_state =
     \<lparr>page = None, links = [], loading = True, error = None, user = None, avatarUrl = None\<rparr>"

fun apply_event :: "event \<Rightarrow> component_state \<Rightarrow> component_state" where
  "apply_event (SetPage p) st = st\<lparr>page := Some p\<rparr>"
| "apply_event (SetLinks ls) st = st\<lparr>links := ls\<rparr>"
| "apply_event (SetLoading b) st = st\<lparr>loading := b\<rparr>"
| "apply_event (SetError msg) st = st\<lparr>error := Some msg\<rparr>"
| "apply_event (SetUser u) st = st\<lparr>user := u\<rparr>"
| "apply_event (SetAvatarUrl a) st = st\<lparr>avatarUrl := a\<rparr>"
| "apply_event (Send rq) st = st"
| "apply_event (Recv rq) st = st"
| "apply_event (Navigate path) st = st"
| "apply_event (ConsoleError label arg) st = st"

text \<open>The state after a list of events, and every state passed through on the way.\<close>

definition state_after :: "component_state \<Rightarrow> event list \<Rightarrow> component_state" where
  "state_after st evs = fold apply_event evs st"

fun states_during :: "component_state \<Rightarrow> event list \<Rightarrow> component_state list" where
  "states_during st [] = [st]"
| "states_during st (e # es) = st # states_during (apply_event e st) es"

subsection \<open>The loader\<close>

definition fetchPageAndLinks :: "backend \<Rightarrow> string \<Rightarrow> unit io" where
  "fetchPageAndLinks b slug =
     io_bind (emit (SetLoading True)) (\<lambda>_.
     try_catch_finally
       (io_bind (await_call (PageBySlug slug) (pages_single b slug)) (\<lambda>page_answer.
          case page_answer of
            Failure pageError \<Rightarrow>
              if pg_code pageError = ''PGRST116''
              then io_bind (emit (Navigate ''/404'')) (\<lambda>_. return_early)
              else throw (PostgrestError pageError)
          | Success pageData \<Rightarrow>
              io_bind (emit (SetPage pageData)) (\<lambda>_.
              io_bind (await_call (AvatarByUser (page_user_id pageData))
                         (images_single b (page_user_id pageData))) (\<lambda>avatar_answer.
              io_bind
                (case avatar_answer of
                   Failure avatarError \<Rightarrow>
                     emit (ConsoleError ''Error fetching avatar:''
                             (LogValue (PostgrestError avatarError)))
                 | Success avatarData \<Rightarrow> emit (SetAvatarUrl (avatar_image_url avatarData))) (\<lambda>_.
              io_bind (await_call (LinksByPage (page_id pageData) (OrderBy ''created_at'' True))
                         (links_select b (page_id pageData) (OrderBy ''created_at'' True)))
                (\<lambda>links_answer.
                case links_answer of
                  Failure linksError \<Rightarrow> throw (PostgrestError linksError)
                | Success linksData \<Rightarrow>
                    io_bind (emit (SetLinks linksData)) (\<lambda>_.
                    io_bind (await_call GetUser (auth_getUser b)) (\<lambda>viewer.
                    emit (SetUser viewer)))))))))
       (\<lambda>caught.
          io_bind (emit (ConsoleError ''Error fetching page:'' (LogValue caught))) (\<lambda>_.
          emit (SetError ''Failed to load page. Please try again.'')))
       (emit (SetLoading False)))"

definition load_events :: "backend \<Rightarrow> string \<Rightarrow> event list" where
  "load_events b slug = fst (fetchPageAndLinks b slug)"

text \<open>The events of the avatar step, by its answer.\<close>

definition avatar_events :: "image_row response \<Rightarrow> event list" where
  "avatar_events answer =
     (case answer of
        Failure avatarError \<Rightarrow>
          [ConsoleError ''Error fetching avatar:'' (LogValue (PostgrestError avatarError))]
      | Success avatarData \<Rightarrow> [SetAvatarUrl (avatar_image_url avatarData)])"

subsection \<open>Requests in flight\<close>

text \<open>The requests of a trace in the order in which they were sent.\<close>

fun requests :: "event list \<Rightarrow> request list" where
  "requests [] = []"
| "requests (Send rq # es) = rq # requests es"
| "requests (e # es) = requests es"

text \<open>
  The requests sent and not yet answered after a list of events: a \<open>Send\<close> adds its
  request, a \<open>Recv\<close> removes it.
\<close>

fun outstanding :: "request list \<Rightarrow> event list \<Rightarrow> request list" where
  "outstanding pending [] = pending"
| "outstanding pending (Send rq # es) = outstanding (pending @ [rq]) es"
| "outstanding pending (Recv rq # es) = outstanding (remove1 rq pending) es"
| "outstanding pending (e # es) = outstanding pending es"

definition in_flight :: "event list \<Rightarrow> request list" where
  "in_flight evs = outstanding [] evs"

text \<open>Every request is followed at once by its own answer, and no answer comes unasked.\<close>

fun awaits_each_call :: "event list \<Rightarrow> bool" where
  "awaits_each_call [] = True"
| "awaits_each_call (Send rq # Recv rq' # es) = (rq = rq' \<and> awaits_each_call es)"
| "awaits_each_call (Send rq # es) = False"
| "awaits_each_call (Recv rq # es) = False"
| "awaits_each_call (e # es) = awaits_each_call es"

subsection \<open>The helpers of the view\<close>

text \<open>
  \<^verbatim>\<open>new URL(url)\<close> is the browser's: it either throws or yields an object with a
  \<^verbatim>\<open>hostname\<close>. The constructor is a parameter of everything that parses a URL.
\<close>

record url_object =
  hostname :: string

type_synonym url_ctor = "string \<Rightarrow> thrown + url_object"

definition construct :: "thrown + 'a \<Rightarrow> 'a io" where
  "construct r = (case r of Inl x \<Rightarrow> throw x | Inr v \<Rightarrow> io_return v)"

definition getFaviconUrl :: "url_ctor \<Rightarrow> string \<Rightarrow> (string option) io" where
  "getFaviconUrl new_URL url =
     try_catch
       (io_bind (construct (new_URL url)) (\<lambda>parsed.
          let domain = hostname parsed
          in io_return (Some (''https://www.google.com/s2/favicons?domain='' @ domain @ ''&sz=64''))))
       (\<lambda>caught.
          io_bind (emit (ConsoleError ''Invalid URL:'' (LogString url))) (\<lambda>_.
          io_return None))"

definition handleAvatarClick :: "component_state \<Rightarrow> unit io" where
  "handleAvatarClick st =
     (case user st of
        None \<Rightarrow> io_return ()
      | Some u \<Rightarrow>
          (case page st of
             None \<Rightarrow> throw (TypeError ''page is null'')
           | Some p \<Rightarrow>
               if auth_id u = page_user_id p then emit (Navigate ''/profile'')
               else io_return ()))"

subsection \<open>The view\<close>

text \<open>A string or null in a condition: null and the empty string count as false.\<close>

definition truthy :: "string option \<Rightarrow> bool" where
  "truthy s = (case s of None \<Rightarrow> False | Some x \<Rightarrow> x \<noteq> [])"

text \<open>
  \<^verbatim>\<open>s[0]\<close>: the string of the first UTF-16 code unit, or undefined for the empty
  string.
\<close>

definition first_char :: "utf16 \<Rightarrow> utf16 option" where
  "first_char s = (case s of [] \<Rightarrow> None | c # _ \<Rightarrow> Some [c])"




record link_card =
  card_key :: nat
  card_href :: string
  card_target :: string
  card_rel :: string
  card_img_src :: "string option"
  card_img_alt :: string
  card_title :: string
  card_description :: "string option"

record page_card =
  avatar_cursor :: string
  avatar_src :: "string option"
  avatar_fallback :: "utf16 option"
  heading :: utf16
  description_text :: string
  link_box :: "link_card list option"
  edit_link :: "string option"

datatype view =
    LoadingSpinner string
  | ErrorDiv string
  | NotFoundDiv string
  | PageCard page_card

text \<open>
  \<^verbatim>\<open>user && user.id === page.user_id\<close>, the condition of the pointer cursor and
  of the edit button.
\<close>

definition viewer_owns :: "auth_user option \<Rightarrow> page_row \<Rightarrow> bool" where
  "viewer_owns viewer p = (case viewer of None \<Rightarrow> False | Some u \<Rightarrow> auth_id u = page_user_id p)"

text \<open>
  \<^verbatim>\<open>link.image_url || getFaviconUrl(link.url)\<close>. The view keeps the value the helper
  returns; what the helper writes to the console is in the helper's own events.
\<close>

definition link_img_src :: "url_ctor \<Rightarrow> link_row \<Rightarrow> string option" where
  "link_img_src new_URL link =
     (if truthy (link_image_url link) then link_image_url link
      else (case snd (getFaviconUrl new_URL (link_url link)) of
              Inr v \<Rightarrow> v
            | Inl a \<Rightarrow> None))"

definition render_link :: "url_ctor \<Rightarrow> link_row \<Rightarrow> link_card" where
  "render_link new_URL link =
     \<lparr>card_key = link_id link,
      card_href = link_url link,
      card_target = ''_blank'',
      card_rel = ''noopener noreferrer'',
      card_img_src = link_img_src new_URL link,
      card_img_alt = link_title link,
      card_title = link_title link,
      card_description = link_description link\<rparr>"

definition DisplayPage :: "url_ctor \<Rightarrow> component_state \<Rightarrow> view" where
  "DisplayPage new_URL st =
     (if loading st then LoadingSpinner ''Loading...''
      else if truthy (error st)
        then ErrorDiv (''Error: '' @ (case error st of None \<Rightarrow> [] | Some msg \<Rightarrow> msg))
      else (case page st of
              None \<Rightarrow> NotFoundDiv ''Page not found''
            | Some p \<Rightarrow>
                PageCard
                  \<lparr>avatar_cursor = (if viewer_owns (user st) p then ''pointer'' else ''default''),
                   avatar_src = avatarUrl st,
                   avatar_fallback = first_char (page_title p),
                   heading = page_title p,
                   description_text = page_description p,
                   link_box =
                     (if length (links st) > 0
                      then Some (map (render_link new_URL) (links st))
                      else None),
                   edit_link =
                     (if viewer_owns (user st) p then Some (''/'' @ page_slug p @ ''/edit'')
                      else None)\<rparr>))"




subsection \<open>The four states of the view\<close>




subsection \<open>The image of a link and its error handler\<close>

text \<open>
  The image element of a link has a source and the element's own \<^verbatim>\<open>onerror\<close>
  property, which the view never assigns. The view passes its handler as the
  \<^verbatim>\<open>onError\<close> prop: the component library registers a prop as an event listener of
  its own on the element and does not store it in the \<^verbatim>\<open>onerror\<close> property.
\<close>

datatype callback = LinkImageOnError

record img_element =
  img_src :: "string option"
  img_onerror :: "callback option"
  img_onError_prop :: "callback option"

definition rendered_img :: "url_ctor \<Rightarrow> link_row \<Rightarrow> img_element" where
  "rendered_img new_URL link =
     \<lparr>img_src = link_img_src new_URL link,
      img_onerror = None,
      img_onError_prop = Some LinkImageOnError\<rparr>"

text \<open>The handler of the source: the two assignments to \<^verbatim>\<open>e.target\<close>.\<close>

definition onError :: "img_element \<Rightarrow> img_element" where
  "onError target = (target\<lparr>img_onerror := None\<rparr>)\<lparr>img_src := Some ''/assets/react.svg''\<rparr>"

fun run_callback :: "callback \<Rightarrow> img_element \<Rightarrow> img_element" where
  "run_callback LinkImageOnError target = onError target"

text \<open>
  One failed load of the element's current source. The listener of the prop was added when
  the element was created, so the error event runs the registered prop first, if any, and
  then the callback that the \<^verbatim>\<open>onerror\<close> property holds at that moment, if any. The
  result is the element afterwards and the number of times the handler ran.
\<close>

definition fire_error :: "img_element \<Rightarrow> img_element \<times> nat" where
  "fire_error el =
     (case (case img_onError_prop el of
              None \<Rightarrow> (el, 0)
            | Some cb \<Rightarrow> (run_callback cb el, Suc 0)) of
        (el', n) \<Rightarrow>
          (case img_onerror el' of
             None \<Rightarrow> (el', n)
           | Some cb \<Rightarrow> (run_callback cb el', Suc n)))"

text \<open>Consecutive failed loads, the substitutions counted.\<close>

fun failed_loads :: "nat \<Rightarrow> img_element \<Rightarrow> img_element \<times> nat" where
  "failed_loads 0 el = (el, 0)"
| "failed_loads (Suc k) el =
     (case fire_error el of (el', n) \<Rightarrow> (case failed_loads k el' of (el'', m) \<Rightarrow> (el'', n + m)))"

subsection \<open>Sample data\<close>

text \<open>The titles are "Ada", "Bob" and a title of one emoji (U+1F600), in code units.\<close>

definition sample_page :: page_row where
  "sample_page =
     \<lparr>page_id = 7, page_slug = ''ada'', page_title = [65, 100, 97],
      page_description = ''Notes'', page_user_id = ''u-1''\<rparr>"



definition sample_link :: "nat \<Rightarrow> nat \<Rightarrow> string \<Rightarrow> int \<Rightarrow> link_row" where
  "sample_link i pid target created =
     \<lparr>link_id = i, link_page_id = pid, link_url = target, link_title = ''link'',
      link_description = None, link_image_url = None, link_created_at = created\<rparr>"

definition sample_links :: "link_row list" where
  "sample_links =
     [sample_link 1 7 ''https://b.example/x'' 30,
      sample_link 2 8 ''https://c.example/'' 10,
      sample_link 3 7 ''not a url'' 20,
      sample_link 4 8 ''https://b.example/x'' 5]"

definition no_rows :: pg_error where
  "no_rows = \<lparr>pg_code = ''PGRST116'', pg_message = ''no rows''\<rparr>"

definition server_fault :: pg_error where
  "server_fault = \<lparr>pg_code = ''500'', pg_message = ''fault''\<rparr>"

definition sample_backend :: backend where
  "sample_backend =
     \<lparr>pages_single = (\<lambda>s. if s = ''ada'' then Success sample_page else Failure no_rows),
      images_single = (\<lambda>u. Failure no_rows),
      links_select = links_service sample_links,
      auth_getUser = Some \<lparr>auth_id = ''u-1''\<rparr>\<rparr>"

definition faulty_backend :: backend where
  "faulty_backend =
     \<lparr>pages_single = (\<lambda>s. if s = ''ada'' then Success sample_page else Failure no_rows),
      images_single = (\<lambda>u. Success \<lparr>avatar_image_url = Some ''https://img.example/a.png''\<rparr>),
      links_select = (\<lambda>pid clause. Failure server_fault),
      auth_getUser = None\<rparr>"



definition sample_new_URL :: url_ctor where
  "sample_new_URL u =
     (if u = ''https://b.example/x'' then Inr \<lparr>hostname = ''b.example''\<rparr>
      else if u = ''https://c.example/'' then Inr \<lparr>hostname = ''c.example''\<rparr>
      else Inl (TypeError ''Invalid URL''))"

section \<open>The traces of a load\<close>

lemmas io_defs =
  io_bind_def io_return_def emit_def throw_def return_early_def await_call_def
  try_catch_def try_catch_finally_def

lemma load_events_no_rows:
  assumes "pages_single b slug = Failure e" and "pg_code e = ''PGRST116''"
  shows "load_events b slug =
           [SetLoading True, Send (PageBySlug slug), Recv (PageBySlug slug),
            Navigate ''/404'', SetLoading False]"
  using assms by (simp add: load_events_def fetchPageAndLinks_def io_defs)

lemma load_events_page_error:
  assumes "pages_single b slug = Failure e" and "pg_code e \<noteq> ''PGRST116''"
  shows "load_events b slug =
           [SetLoading True, Send (PageBySlug slug), Recv (PageBySlug slug),
            ConsoleError ''Error fetching page:'' (LogValue (PostgrestError e)),
            SetError ''Failed to load page. Please try again.'', SetLoading False]"
  using assms by (simp add: load_events_def fetchPageAndLinks_def io_defs)

lemma load_events_links_error:
  assumes "pages_single b slug = Success p"
    and "links_select b (page_id p) (OrderBy ''created_at'' True) = Failure e"
  shows "load_events b slug =
           [SetLoading True, Send (PageBySlug slug), Recv (PageBySlug slug), SetPage p,
            Send (AvatarByUser (page_user_id p)), Recv (AvatarByUser (page_user_id p))]
           @ avatar_events (images_single b (page_user_id p))
           @ [Send (LinksByPage (page_id p) (OrderBy ''created_at'' True)), Recv (LinksByPage (page_id p) (OrderBy ''created_at'' True)),
              ConsoleError ''Error fetching page:'' (LogValue (PostgrestError e)),
              SetError ''Failed to load page. Please try again.'', SetLoading False]"
  using assms
  by (simp add: load_events_def fetchPageAndLinks_def io_defs avatar_events_def
           split: response.split)

lemma load_events_loaded:
  assumes "pages_single b slug = Success p"
    and "links_select b (page_id p) (OrderBy ''created_at'' True) = Success ls"
  shows "load_events b slug =
           [SetLoading True, Send (PageBySlug slug), Recv (PageBySlug slug), SetPage p,
            Send (AvatarByUser (page_user_id p)), Recv (AvatarByUser (page_user_id p))]
           @ avatar_events (images_single b (page_user_id p))
           @ [Send (LinksByPage (page_id p) (OrderBy ''created_at'' True)), Recv (LinksByPage (page_id p) (OrderBy ''created_at'' True)), SetLinks ls,
              Send GetUser, Recv GetUser, SetUser (auth_getUser b), SetLoading False]"
  using assms
  by (simp add: load_events_def fetchPageAndLinks_def io_defs avatar_events_def
           split: response.split)

lemma state_after_Cons: "state_after st (e # es) = state_after (apply_event e st) es"
  by (simp add: state_after_def)

lemma state_after_Nil: "state_after st [] = st"
  by (simp add: state_after_def)

lemma state_after_append: "state_after st (xs @ ys) = state_after (state_after st xs) ys"
  by (simp add: state_after_def)

lemma requests_append: "requests (xs @ ys) = requests xs @ requests ys"
  by (induction xs rule: requests.induct) simp_all

lemma requests_avatar_events: "requests (avatar_events a) = []"
  by (cases a) (simp_all add: avatar_events_def)

lemma avatar_events_keep:
  "page (state_after st (avatar_events a)) = page st"
  "links (state_after st (avatar_events a)) = links st"
  "loading (state_after st (avatar_events a)) = loading st"
  "error (state_after st (avatar_events a)) = error st"
  "user (state_after st (avatar_events a)) = user st"
  by (cases a; simp add: avatar_events_def state_after_def)+

lemma loaded_state:
  assumes "pages_single b slug = Success p"
    and "links_select b (page_id p) (OrderBy ''created_at'' True) = Success ls"
  shows "loading (state_after st (load_events b slug)) = False"
    and "error (state_after st (load_events b slug)) = error st"
    and "page (state_after st (load_events b slug)) = Some p"
    and "links (state_after st (load_events b slug)) = ls"
    and "user (state_after st (load_events b slug)) = auth_getUser b"
    and "avatarUrl (state_after st (load_events b slug))
           = (case images_single b (page_user_id p) of
                Failure avatarError \<Rightarrow> avatarUrl st
              | Success avatarData \<Rightarrow> avatar_image_url avatarData)"
  by (cases "images_single b (page_user_id p)";
      simp add: load_events_loaded [OF assms] state_after_def avatar_events_def)+


lemma links_service_Success:
  "links_select b = links_service tbl \<Longrightarrow>
     links_select b pid clause
       = Success (order_rows clause (filter (\<lambda>l. link_page_id l = pid) tbl))"
  by (simp add: links_service_def)

lemma sample_backend_serves: "links_select sample_backend = links_service sample_links"
  by (simp add: sample_backend_def)



lemma states_during_nonempty: "states_during st evs \<noteq> []"
  by (cases evs) simp_all

lemma states_during_last: "last (states_during st evs) = state_after st evs"
  by (induction evs arbitrary: st) (simp_all add: state_after_def states_during_nonempty)


lemma in_flight_awaits:
  "awaits_each_call evs \<Longrightarrow> length (outstanding [] (take n evs)) \<le> Suc 0"
proof (induction evs arbitrary: n rule: awaits_each_call.induct)
  case (2 rq rq' es)
  show ?case
  proof (cases n)
    case 0
    then show ?thesis by simp
  next
    case (Suc m)
    show ?thesis
    proof (cases m)
      case 0
      with Suc show ?thesis by simp
    next
      case (Suc k)
      with \<open>n = Suc m\<close> "2.prems" "2.IH" [of k] show ?thesis by simp
    qed
  qed
qed (simp_all add: take_Cons split: nat.split)

lemma awaits_load_events: "awaits_each_call (load_events b slug)"
proof (cases "pages_single b slug")
  case (Failure e)
  then show ?thesis
    by (cases "pg_code e = ''PGRST116''")
       (simp_all add: load_events_no_rows load_events_page_error)
next
  case (Success p)
  show ?thesis
  proof (cases "links_select b (page_id p) (OrderBy ''created_at'' True)")
    case (Failure e)
    show ?thesis
      by (cases "images_single b (page_user_id p)")
         (simp_all add: load_events_links_error [OF Success Failure] avatar_events_def)
  next
    case Success': (Success ls)
    show ?thesis
      by (cases "images_single b (page_user_id p)")
         (simp_all add: load_events_loaded [OF Success Success'] avatar_events_def)
  qed
qed

lemma requests_load_events:
  "requests (load_events b slug) =
     (case pages_single b slug of
        Failure e \<Rightarrow> [PageBySlug slug]
      | Success p \<Rightarrow>
          (case links_select b (page_id p) (OrderBy ''created_at'' True) of
             Failure e \<Rightarrow>
               [PageBySlug slug, AvatarByUser (page_user_id p), LinksByPage (page_id p) (OrderBy ''created_at'' True)]
           | Success ls \<Rightarrow>
               [PageBySlug slug, AvatarByUser (page_user_id p), LinksByPage (page_id p) (OrderBy ''created_at'' True),
                GetUser]))"
proof (cases "pages_single b slug")
  case (Failure e)
  then show ?thesis
    by (cases "pg_code e = ''PGRST116''")
       (simp_all add: load_events_no_rows load_events_page_error)
next
  case (Success p)
  show ?thesis
  proof (cases "links_select b (page_id p) (OrderBy ''created_at'' True)")
    case (Failure e)
    show ?thesis
      by (simp add: load_events_links_error [OF Success Failure] Success Failure
            requests_append requests_avatar_events)
  next
    case Success': (Success ls)
    show ?thesis
      by (simp add: load_events_loaded [OF Success Success'] Success Success'
            requests_append requests_avatar_events)
  qed
qed

section \<open>A slug without a page\<close>

text \<open>
  C1. When the page lookup fails with the error code \<^verbatim>\<open>PGRST116\<close> (no rows), the
  loader navigates to \<^verbatim>\<open>/404\<close> and does nothing more than clear the loading flag:
  the page lookup is the only request, so the avatar, link and viewer lookups are not made.
  No error message is set, and the view of a freshly mounted component shows only its
  not-found placeholder: neither an error message nor a page card.
\<close>

theorem no_rows_redirects_and_aborts:
  assumes "pages_single b slug = Failure e" and "pg_code e = ''PGRST116''"
  shows "load_events b slug =
           [SetLoading True, Send (PageBySlug slug), Recv (PageBySlug slug),
            Navigate ''/404'', SetLoading False]
         \<and> requests (load_events b slug) = [PageBySlug slug]
         \<and> error (state_after mount_state (load_events b slug)) = None
         \<and> DisplayPage new_URL (state_after mount_state (load_events b slug))
             = NotFoundDiv ''Page not found''"
  by (simp add: load_events_no_rows [OF assms] state_after_def mount_state_def
        DisplayPage_def truthy_def)

theorem no_rows_redirects_and_aborts_witness:
  "pages_single sample_backend ''zed'' = Failure no_rows \<and> pg_code no_rows = ''PGRST116''
   \<and> load_events sample_backend ''zed'' =
           [SetLoading True, Send (PageBySlug ''zed''), Recv (PageBySlug ''zed''),
            Navigate ''/404'', SetLoading False]
   \<and> DisplayPage sample_new_URL (state_after mount_state (load_events sample_backend ''zed''))
             = NotFoundDiv ''Page not found''"
proof -
  have h1: "pages_single sample_backend ''zed'' = Failure no_rows"
    by (simp add: sample_backend_def)
  have h2: "pg_code no_rows = ''PGRST116''"
    by (simp add: no_rows_def)
  from no_rows_redirects_and_aborts [OF h1 h2, of sample_new_URL] h1 h2
  show ?thesis by blast
qed

section \<open>A failing link lookup\<close>

text \<open>
  C2. When the page lookup succeeds and the link lookup fails, then from any state of the
  component the loader sets the error to \<^verbatim>\<open>Failed to load page. Please try again.\<close>,
  the requests made are the page, avatar and link lookups only (the viewer's identity is
  neither requested nor stored, and no links are stored), nothing is navigated to, and the
  view is the generic error view and not the not-found placeholder.
\<close>

theorem links_failure_shows_generic_error:
  assumes "pages_single b slug = Success p"
    and "links_select b (page_id p) (OrderBy ''created_at'' True) = Failure e"
  shows "SetError ''Failed to load page. Please try again.'' \<in> set (load_events b slug)
         \<and> error (state_after st (load_events b slug))
             = Some ''Failed to load page. Please try again.''
         \<and> requests (load_events b slug)
             = [PageBySlug slug, AvatarByUser (page_user_id p), LinksByPage (page_id p) (OrderBy ''created_at'' True)]
         \<and> (\<forall>viewer. SetUser viewer \<notin> set (load_events b slug))
         \<and> (\<forall>rows. SetLinks rows \<notin> set (load_events b slug))
         \<and> (\<forall>path. Navigate path \<notin> set (load_events b slug))
         \<and> DisplayPage new_URL (state_after st (load_events b slug))
             = ErrorDiv ''Error: Failed to load page. Please try again.''"
proof -
  let ?a = "images_single b (page_user_id p)"
  have no_nav: "\<And>path. Navigate path \<notin> set (avatar_events ?a)"
    and no_user: "\<And>viewer. SetUser viewer \<notin> set (avatar_events ?a)"
    and no_links: "\<And>rows. SetLinks rows \<notin> set (avatar_events ?a)"
    by (cases ?a; simp add: avatar_events_def)+
  show ?thesis
    by (simp add: load_events_links_error [OF assms] requests_append requests_avatar_events
          state_after_append state_after_Cons state_after_Nil no_nav no_user no_links
          DisplayPage_def truthy_def)
qed

theorem links_failure_shows_generic_error_witness:
  "pages_single faulty_backend ''ada'' = Success sample_page
   \<and> links_select faulty_backend (page_id sample_page) (OrderBy ''created_at'' True) = Failure server_fault
   \<and> requests (load_events faulty_backend ''ada'')
       = [PageBySlug ''ada'', AvatarByUser ''u-1'', LinksByPage 7 (OrderBy ''created_at'' True)]
   \<and> DisplayPage sample_new_URL (state_after mount_state (load_events faulty_backend ''ada''))
       = ErrorDiv ''Error: Failed to load page. Please try again.''"
proof -
  have h1: "pages_single faulty_backend ''ada'' = Success sample_page"
    by (simp add: faulty_backend_def)
  have h2: "links_select faulty_backend (page_id sample_page) (OrderBy ''created_at'' True)
              = Failure server_fault"
    by (simp add: faulty_backend_def)
  have ids: "page_user_id sample_page = ''u-1''" "page_id sample_page = 7"
    by (simp_all add: sample_page_def)
  from links_failure_shows_generic_error [OF h1 h2, of mount_state sample_new_URL] h1 h2 ids
  show ?thesis by simp
qed

section \<open>The affordances of the owner\<close>

text \<open>
  C3. In the loaded view (loading cleared, no error, a page present), for every viewer:
  the edit link to \<^verbatim>\<open>/<slug>/edit\<close> is shown, the avatar has the pointer cursor and
  a click on the avatar navigates to \<^verbatim>\<open>/profile\<close> exactly when there is an
  authenticated viewer whose id equals the page's owning user id. Otherwise there is no
  edit link and a click on the avatar does nothing.
\<close>

theorem edit_affordances_iff_owner:
  assumes "\<not> loading st" and "\<not> truthy (error st)" and "page st = Some p"
  shows "\<exists>c. DisplayPage new_URL st = PageCard c
           \<and> (edit_link c = Some (''/'' @ page_slug p @ ''/edit'')
                \<longleftrightarrow> (\<exists>u. user st = Some u \<and> auth_id u = page_user_id p))
           \<and> (edit_link c = None
                \<longleftrightarrow> \<not> (\<exists>u. user st = Some u \<and> auth_id u = page_user_id p))
           \<and> (avatar_cursor c = ''pointer''
                \<longleftrightarrow> (\<exists>u. user st = Some u \<and> auth_id u = page_user_id p))
           \<and> (handleAvatarClick st = ([Navigate ''/profile''], Inr ())
                \<longleftrightarrow> (\<exists>u. user st = Some u \<and> auth_id u = page_user_id p))
           \<and> (handleAvatarClick st = ([], Inr ())
                \<longleftrightarrow> \<not> (\<exists>u. user st = Some u \<and> auth_id u = page_user_id p))"
  using assms
  by (cases "user st")
     (auto simp: DisplayPage_def viewer_owns_def handleAvatarClick_def io_defs)

theorem edit_affordances_iff_owner_witness:
  "(\<exists>c. DisplayPage sample_new_URL (state_after mount_state (load_events sample_backend ''ada''))
          = PageCard c
        \<and> edit_link c = Some ''/ada/edit''
        \<and> handleAvatarClick (state_after mount_state (load_events sample_backend ''ada''))
            = ([Navigate ''/profile''], Inr ()))
   \<and> (\<exists>c. DisplayPage sample_new_URL
              (mount_state\<lparr>page := Some sample_page, loading := False,
                 user := Some \<lparr>auth_id = ''u-2''\<rparr>\<rparr>)
          = PageCard c
        \<and> edit_link c = None
        \<and> handleAvatarClick
              (mount_state\<lparr>page := Some sample_page, loading := False,
                 user := Some \<lparr>auth_id = ''u-2''\<rparr>\<rparr>)
            = ([], Inr ()))"
proof -
  let ?st = "state_after mount_state (load_events sample_backend ''ada'')"
  let ?other = "mount_state\<lparr>page := Some sample_page, loading := False,
                 user := Some \<lparr>auth_id = ''u-2''\<rparr>\<rparr>"
  have h1: "pages_single sample_backend ''ada'' = Success sample_page"
    by (simp add: sample_backend_def)
  note h2 = links_service_Success [OF sample_backend_serves,
    of "page_id sample_page" "OrderBy ''created_at'' True"]
  have st: "\<not> loading ?st" "\<not> truthy (error ?st)" "page ?st = Some sample_page"
    "user ?st = Some \<lparr>auth_id = ''u-1''\<rparr>"
    by (simp_all add: loaded_state [OF h1 h2] mount_state_def truthy_def)
       (simp add: sample_backend_def)
  have other: "\<not> loading ?other" "\<not> truthy (error ?other)" "page ?other = Some sample_page"
    "user ?other = Some \<lparr>auth_id = ''u-2''\<rparr>"
    by (simp_all add: mount_state_def truthy_def)
  from edit_affordances_iff_owner [OF st(1) st(2) st(3), of sample_new_URL] st(4)
  have owner: "\<exists>c. DisplayPage sample_new_URL ?st = PageCard c
        \<and> edit_link c = Some ''/ada/edit''
        \<and> handleAvatarClick ?st = ([Navigate ''/profile''], Inr ())"
    by (auto simp: sample_page_def)
  from edit_affordances_iff_owner [OF other(1) other(2) other(3), of sample_new_URL] other(4)
  have stranger: "\<exists>c. DisplayPage sample_new_URL ?other = PageCard c
        \<and> edit_link c = None
        \<and> handleAvatarClick ?other = ([], Inr ())"
    by (auto simp: sample_page_def)
  from owner stranger show ?thesis by (intro conjI)
qed

section \<open>The list of links\<close>




section \<open>A missing avatar\<close>




section \<open>The favicon helper\<close>

text \<open>
  C6. The result of \<^verbatim>\<open>getFaviconUrl\<close> is determined by the URL: when the URL
  constructor accepts the URL, the helper returns the address of the favicon service for
  the URL's hostname; when the constructor throws, the helper returns null, having written
  one line to the console. In no case does the helper complete with an exception.
\<close>

theorem getFaviconUrl_total:
  "(\<forall>parsed. new_URL url = Inr parsed \<longrightarrow>
      getFaviconUrl new_URL url
        = ([], Inr (Some (''https://www.google.com/s2/favicons?domain='' @ hostname parsed
                            @ ''&sz=64''))))
   \<and> (\<forall>x. new_URL url = Inl x \<longrightarrow>
        getFaviconUrl new_URL url = ([ConsoleError ''Invalid URL:'' (LogString url)], Inr None))
   \<and> (\<exists>r. snd (getFaviconUrl new_URL url) = Inr r)"
  by (cases "new_URL url") (simp_all add: getFaviconUrl_def construct_def io_defs)

theorem getFaviconUrl_total_witness:
  "sample_new_URL ''https://b.example/x'' = Inr \<lparr>hostname = ''b.example''\<rparr>
   \<and> snd (getFaviconUrl sample_new_URL ''https://b.example/x'')
       = Inr (Some ''https://www.google.com/s2/favicons?domain=b.example&sz=64'')
   \<and> sample_new_URL ''not a url'' = Inl (TypeError ''Invalid URL'')
   \<and> snd (getFaviconUrl sample_new_URL ''not a url'') = Inr None"
proof -
  have h1: "sample_new_URL ''https://b.example/x'' = Inr \<lparr>hostname = ''b.example''\<rparr>"
    by (simp add: sample_new_URL_def)
  have h2: "sample_new_URL ''not a url'' = Inl (TypeError ''Invalid URL'')"
    by (simp add: sample_new_URL_def)
  from getFaviconUrl_total [of sample_new_URL "''https://b.example/x''"]
    getFaviconUrl_total [of sample_new_URL "''not a url''"] h1 h2
  show ?thesis by simp
qed

section \<open>The states of the view during a load\<close>









section \<open>The order of the reads\<close>

text \<open>
  C8. In every load each request is followed at once by its own answer, so that at no
  point of the load more than one request is in flight. The requests are, in this order,
  the page by the slug, the avatar by the user id of the page found, the links by the id of
  the page found, and the viewer's identity; a load that ends early makes a prefix of them.
\<close>

theorem reads_are_sequential:
  "(\<forall>n. length (in_flight (take n (load_events b slug))) \<le> 1)
   \<and> awaits_each_call (load_events b slug)
   \<and> requests (load_events b slug) =
       (case pages_single b slug of
          Failure e \<Rightarrow> [PageBySlug slug]
        | Success p \<Rightarrow>
            (case links_select b (page_id p) (OrderBy ''created_at'' True) of
               Failure e \<Rightarrow>
                 [PageBySlug slug, AvatarByUser (page_user_id p), LinksByPage (page_id p) (OrderBy ''created_at'' True)]
             | Success ls \<Rightarrow>
                 [PageBySlug slug, AvatarByUser (page_user_id p), LinksByPage (page_id p) (OrderBy ''created_at'' True),
                  GetUser]))"
  using in_flight_awaits [OF awaits_load_events, of _ b slug]
  by (simp add: in_flight_def awaits_load_events requests_load_events)

theorem reads_are_sequential_witness:
  "requests (load_events sample_backend ''ada'')
     = [PageBySlug ''ada'', AvatarByUser ''u-1'', LinksByPage 7 (OrderBy ''created_at'' True), GetUser]
   \<and> in_flight (take 5 (load_events sample_backend ''ada'')) = [AvatarByUser ''u-1'']
   \<and> length (in_flight (take 5 (load_events sample_backend ''ada''))) \<le> 1"
proof -
  have h1: "pages_single sample_backend ''ada'' = Success sample_page"
    by (simp add: sample_backend_def)
  note h2 = links_service_Success [OF sample_backend_serves,
    of "page_id sample_page" "OrderBy ''created_at'' True"]
  have ids: "page_user_id sample_page = ''u-1''" "page_id sample_page = 7"
    by (simp_all add: sample_page_def)
  have five: "in_flight (take 5 (load_events sample_backend ''ada'')) = [AvatarByUser ''u-1'']"
    by (simp add: load_events_loaded [OF h1 h2] ids in_flight_def)
  from reads_are_sequential [of sample_backend "''ada''"] h1 h2 ids five
  show ?thesis by simp
qed

section \<open>The error and the page\<close>

text \<open>
  C9, as stated, fails. In the load below the link lookup fails; after the catch block
  has stored the error and before the finally block clears the loading flag, the error is
  set and the view is the loading indicator, not the error view: the view checks the
  loading flag before it checks the error.
\<close>

theorem error_while_loading_counterexample:
  "error (states_during mount_state (load_events faulty_backend ''ada'') ! 11)
     = Some ''Failed to load page. Please try again.''
   \<and> DisplayPage sample_new_URL (states_during mount_state (load_events faulty_backend ''ada'') ! 11)
       = LoadingSpinner ''Loading...''
   \<and> DisplayPage sample_new_URL (states_during mount_state (load_events faulty_backend ''ada'') ! 11)
       \<noteq> ErrorDiv ''Error: Failed to load page. Please try again.''"
proof -
  have h1: "pages_single faulty_backend ''ada'' = Success sample_page"
    by (simp add: faulty_backend_def)
  have h2: "links_select faulty_backend (page_id sample_page) (OrderBy ''created_at'' True)
              = Failure server_fault"
    by (simp add: faulty_backend_def)
  have h3: "images_single faulty_backend (page_user_id sample_page)
              = Success \<lparr>avatar_image_url = Some ''https://img.example/a.png''\<rparr>"
    by (simp add: faulty_backend_def)
  show ?thesis
    by (simp add: load_events_links_error [OF h1 h2] h3 avatar_events_def mount_state_def
          DisplayPage_def)
qed

lemma stored_error_load:
  "\<forall>s \<in> set (states_during mount_state (load_events b slug)).
     error s = None \<or> error s = Some ''Failed to load page. Please try again.''"
proof (cases "pages_single b slug")
  case (Failure e)
  then show ?thesis
    by (cases "pg_code e = ''PGRST116''")
       (simp_all add: load_events_no_rows load_events_page_error mount_state_def)
next
  case (Success p)
  show ?thesis
  proof (cases "links_select b (page_id p) (OrderBy ''created_at'' True)")
    case (Failure e)
    show ?thesis
      by (cases "images_single b (page_user_id p)")
         (simp_all add: load_events_links_error [OF Success Failure] avatar_events_def
            mount_state_def)
  next
    case Success': (Success ls)
    show ?thesis
      by (cases "images_single b (page_user_id p)")
         (simp_all add: load_events_loaded [OF Success Success'] avatar_events_def
            mount_state_def)
  qed
qed

text \<open>
  C9, amended. The load is not atomic on failure: when the link lookup fails, the page
  has been stored from the page lookup, and at the end of the load the error is set and the
  error view is shown. In every state passed through during a load of a freshly mounted
  component in which the error is set, the view is the loading indicator while the loading
  flag is set and the error view once it is cleared. In any state whatever with an error
  message, the view is not the page card: no page content is shown.
\<close>

theorem error_hides_page_content:
  "(pages_single b slug = Success p \<and> links_select b (page_id p) (OrderBy ''created_at'' True) = Failure e \<longrightarrow>
      SetPage p \<in> set (load_events b slug)
      \<and> page (state_after st (load_events b slug)) = Some p
      \<and> error (state_after st (load_events b slug))
          = Some ''Failed to load page. Please try again.''
      \<and> DisplayPage new_URL (state_after st (load_events b slug))
          = ErrorDiv ''Error: Failed to load page. Please try again.'')
   \<and> (\<forall>s \<in> set (states_during mount_state (load_events b slug)).
         error s \<noteq> None \<longrightarrow>
           DisplayPage new_URL s
             = (if loading s then LoadingSpinner ''Loading...''
                else ErrorDiv ''Error: Failed to load page. Please try again.''))
   \<and> (truthy (error s') \<longrightarrow> (\<forall>c. DisplayPage new_URL s' \<noteq> PageCard c))"
proof -
  have broken: "SetPage p \<in> set (load_events b slug)
      \<and> page (state_after st (load_events b slug)) = Some p
      \<and> error (state_after st (load_events b slug))
          = Some ''Failed to load page. Please try again.''
      \<and> DisplayPage new_URL (state_after st (load_events b slug))
          = ErrorDiv ''Error: Failed to load page. Please try again.''"
    if ok: "pages_single b slug = Success p"
      and bad: "links_select b (page_id p) (OrderBy ''created_at'' True) = Failure e"
    by (simp add: load_events_links_error [OF ok bad] state_after_append state_after_Cons
          state_after_Nil avatar_events_keep DisplayPage_def truthy_def)
  have during: "DisplayPage new_URL s
             = (if loading s then LoadingSpinner ''Loading...''
                else ErrorDiv ''Error: Failed to load page. Please try again.'')"
    if "s \<in> set (states_during mount_state (load_events b slug))" and "error s \<noteq> None" for s
    using stored_error_load [of b slug] that by (auto simp: DisplayPage_def truthy_def)
  have hidden: "DisplayPage new_URL s' \<noteq> PageCard c" if "truthy (error s')" for c
    using that by (simp add: DisplayPage_def)
  from broken during hidden show ?thesis by blast
qed

theorem error_hides_page_content_witness:
  "page (state_after mount_state (load_events faulty_backend ''ada'')) = Some sample_page
   \<and> DisplayPage sample_new_URL (state_after mount_state (load_events faulty_backend ''ada''))
       = ErrorDiv ''Error: Failed to load page. Please try again.''
   \<and> state_after mount_state (load_events faulty_backend ''ada'')
       \<in> set (states_during mount_state (load_events faulty_backend ''ada''))
   \<and> truthy (error (state_after mount_state (load_events faulty_backend ''ada'')))"
proof -
  let ?st = "state_after mount_state (load_events faulty_backend ''ada'')"
  have h1: "pages_single faulty_backend ''ada'' = Success sample_page"
    by (simp add: faulty_backend_def)
  have h2: "links_select faulty_backend (page_id sample_page) (OrderBy ''created_at'' True)
              = Failure server_fault"
    by (simp add: faulty_backend_def)
  have "last (states_during mount_state (load_events faulty_backend ''ada'')) = ?st"
    by (rule states_during_last)
  then have mem: "?st \<in> set (states_during mount_state (load_events faulty_backend ''ada''))"
    using last_in_set [OF states_during_nonempty [of mount_state "load_events faulty_backend ''ada''"]]
    by simp
  from error_hides_page_content
         [of faulty_backend "''ada''" sample_page server_fault mount_state sample_new_URL ?st]
       h1 h2 mem
  show ?thesis by (simp add: truthy_def)
qed

section \<open>The fallback of a link image\<close>

lemma fire_error_rendered:
  assumes "img_onerror el = None" and "img_onError_prop el = Some LinkImageOnError"
  shows "fire_error el = (onError el, Suc 0)"
    and "img_onerror (onError el) = None"
    and "img_onError_prop (onError el) = Some LinkImageOnError"
  using assms by (simp_all add: fire_error_def onError_def)

lemma failed_loads_count:
  assumes "img_onerror el = None" and "img_onError_prop el = Some LinkImageOnError"
  shows "snd (failed_loads n el) = n"
  using assms
proof (induction n arbitrary: el)
  case 0
  then show ?case by simp
next
  case (Suc n)
  from Suc.prems have "snd (failed_loads n (onError el)) = n"
    by (intro Suc.IH) (simp_all add: onError_def)
  with Suc.prems show ?case
    by (auto simp: fire_error_rendered split: prod.split)
qed

text \<open>
  C10. The handler clears the \<^verbatim>\<open>onerror\<close> property of the image and assigns the
  default asset as its source. The handler is not held in that property, though: it is the
  \<^verbatim>\<open>onError\<close> prop of the element and stays registered. So the handler runs at every
  failed load: after \<open>n\<close> consecutive failures it has run \<open>n\<close> times. For the image of a
  sample link, the first failure substitutes the default asset, and a failure of the
  default asset runs the handler once more.
\<close>

theorem fallback_fires_on_every_failure:
  "snd (failed_loads n (rendered_img new_URL link)) = n
   \<and> fire_error (rendered_img sample_new_URL (sample_link 1 7 ''https://b.example/x'' 30))
     = (\<lparr>img_src = Some ''/assets/react.svg'', img_onerror = None,
         img_onError_prop = Some LinkImageOnError\<rparr>, 1)
   \<and> fire_error \<lparr>img_src = Some ''/assets/react.svg'', img_onerror = None,
         img_onError_prop = Some LinkImageOnError\<rparr>
     = (\<lparr>img_src = Some ''/assets/react.svg'', img_onerror = None,
         img_onError_prop = Some LinkImageOnError\<rparr>, 1)"
proof -
  have every: "snd (failed_loads n (rendered_img new_URL link)) = n"
    by (rule failed_loads_count) (simp_all add: rendered_img_def)
  have first: "fire_error (rendered_img sample_new_URL (sample_link 1 7 ''https://b.example/x'' 30))
     = (\<lparr>img_src = Some ''/assets/react.svg'', img_onerror = None,
         img_onError_prop = Some LinkImageOnError\<rparr>, 1)"
    by (simp add: fire_error_def onError_def rendered_img_def)
  have second: "fire_error \<lparr>img_src = Some ''/assets/react.svg'', img_onerror = None,
         img_onError_prop = Some LinkImageOnError\<rparr>
     = (\<lparr>img_src = Some ''/assets/react.svg'', img_onerror = None,
         img_onError_prop = Some LinkImageOnError\<rparr>, 1)"
    by (simp add: fire_error_def onError_def)
  from every first second show ?thesis by (intro conjI)
qed

end
